theory Spec2Isabelle
  imports Main "HOL-Library.Word" "HOL-Library.Sublist"
begin

section \<open>Go strings and maps used by the handler\<close>

text \<open>
  Go strings and byte slices are byte sequences; both are modelled as \<open>string\<close>.
  The functions of package \<open>strings\<close> that search for or split at an ASCII byte work
  on the bytes and are written out here. \<open>strings.TrimSpace\<close> and \<open>strings.ToLower\<close>
  follow the Unicode tables; they are taken from the environment (see \<open>externals\<close>).
\<close>

type_synonym bytes = string

text \<open>\<open>strings.IndexRune(s, c)\<close> for an ASCII rune; \<open>None\<close> stands for \<open>-1\<close>.\<close>

fun IndexRune :: "string \<Rightarrow> char \<Rightarrow> nat option" where
  "IndexRune [] c = None"
| "IndexRune (x # xs) c = (if x = c then Some 0 else map_option Suc (IndexRune xs c))"

text \<open>\<open>strings.Contains(s, sub)\<close>: \<open>sub\<close> occurs as a contiguous run of \<open>s\<close>.\<close>

fun Contains :: "string \<Rightarrow> string \<Rightarrow> bool" where
  "Contains [] sub = (sub = [])"
| "Contains (x # xs) sub = (if prefix sub (x # xs) then True else Contains xs sub)"

text \<open>\<open>strings.Split(s, sep)\<close> for a one-byte separator: always at least one field.\<close>

fun Split :: "string \<Rightarrow> char \<Rightarrow> string list" where
  "Split [] sep = [[]]"
| "Split (x # xs) sep =
     (if x = sep then [] # Split xs sep
      else (case Split xs sep of [] \<Rightarrow> [[x]] | f # fs \<Rightarrow> (x # f) # fs))"

text \<open>\<open>strings.Join(elems, sep)\<close>.\<close>

fun Join :: "string list \<Rightarrow> string \<Rightarrow> string" where
  "Join [] sep = []"
| "Join [e] sep = e"
| "Join (e # es) sep = e @ sep @ Join es sep"

text \<open>Reading a Go \<open>map[string]string\<close>: a missing key reads as the empty string.\<close>

definition index_map :: "(string \<rightharpoonup> string) \<Rightarrow> string \<Rightarrow> string" where
  "index_map m k = (case m k of None \<Rightarrow> [] | Some v \<Rightarrow> v)"

section \<open>Requests, services and the handler\<close>

text \<open>
  \<open>http.Header\<close> is \<open>map[string][]string\<close>. \<open>Header.Get\<close> returns the first value
  stored under the key, or the empty string. (Go canonicalises the key first; every key
  the handler passes to \<open>Get\<close> is already in canonical form.) Indexing the map directly,
  as \<open>serveWebsocket\<close> does with the key \<open>Sec-WebSocket-Protocol\<close>, is plain
  application: the key is looked up as written.
\<close>

type_synonym header = "string \<rightharpoonup> string list"

definition Get :: "header \<Rightarrow> string \<Rightarrow> string" where
  "Get h key = (case h key of None \<Rightarrow> [] | Some [] \<Rightarrow> [] | Some (v # vs) \<Rightarrow> v)"

text \<open>
  The server of \<open>net/http\<close> stores every header it parses under the canonical form of
  its name (\<open>textproto.CanonicalMIMEHeaderKey\<close>): the first letter and every letter
  after a hyphen in upper case, all other letters in lower case; a name with a byte
  that no header name may hold is left as it is. \<open>ReadMIMEHeader\<close> builds the map from
  the header lines of a request, in order.
\<close>

definition lowerChar :: "char \<Rightarrow> char" where
  "lowerChar c =
     (case map_of (zip ''ABCDEFGHIJKLMNOPQRSTUVWXYZ'' ''abcdefghijklmnopqrstuvwxyz'') c of
        None \<Rightarrow> c
      | Some l \<Rightarrow> l)"

definition upperChar :: "char \<Rightarrow> char" where
  "upperChar c =
     (case map_of (zip ''abcdefghijklmnopqrstuvwxyz'' ''ABCDEFGHIJKLMNOPQRSTUVWXYZ'') c of
        None \<Rightarrow> c
      | Some u \<Rightarrow> u)"

definition validHeaderFieldByte :: "char \<Rightarrow> bool" where
  "validHeaderFieldByte c =
     (c \<in> set (CHR 0x27 #
        ''!#$%&*+-.^_`|~0123456789ABCDEFGHIJKLMNOPQRSTUVWXYZabcdefghijklmnopqrstuvwxyz''))"

fun canonical_case :: "bool \<Rightarrow> string \<Rightarrow> string" where
  "canonical_case upper [] = []"
| "canonical_case upper (c # cs) =
     (if upper then upperChar c else lowerChar c) # canonical_case (c = CHR ''-'') cs"

definition CanonicalMIMEHeaderKey :: "string \<Rightarrow> string" where
  "CanonicalMIMEHeaderKey s = (if list_all validHeaderFieldByte s then canonical_case True s else s)"

fun ReadMIMEHeader :: "(string \<times> string) list \<Rightarrow> header \<Rightarrow> header" where
  "ReadMIMEHeader [] h = h"
| "ReadMIMEHeader ((name, v) # rest) h =
     ReadMIMEHeader rest
       (h(CanonicalMIMEHeaderKey name \<mapsto>
            (case h (CanonicalMIMEHeaderKey name) of None \<Rightarrow> [v] | Some vs \<Rightarrow> vs @ [v])))"

text \<open>
  The request body is a stream; \<open>max_bytes\<close> is the ceiling that
  \<open>http.MaxBytesReader\<close> puts on it (\<open>None\<close> before \<open>ServeHTTP\<close> installs it).
\<close>

record body =
  content :: bytes
  max_bytes :: "int option"

record request =
  Method :: string
  Header :: header
  RawQuery :: string
  Body :: body

text \<open>
  The resolved service, with the fields the handler reads. The Go structures hold
  pointers (\<open>srv.Endpoint\<close>, the elements of \<open>srv.Services\<close> and of
  \<open>service.Endpoints\<close>); the records stand for the structures pointed to.
\<close>

record registry_endpoint =
  Name :: string
  Metadata :: "string \<rightharpoonup> string"

record registry_service =
  Endpoints :: "registry_endpoint list"

record api_endpoint =
  EndpointName :: string

record api_service =
  ServiceName :: string
  Endpoint :: api_endpoint
  Services :: "registry_service list"

text \<open>
  Errors are values. The handler builds the first two itself; \<open>BodyTooLarge\<close> is the
  error of \<open>http.MaxBytesReader\<close>; \<open>ClosedError\<close> is \<open>wsutil.ClosedError\<close> with its
  status code and reason; \<open>External\<close> carries the message of any other error raised by
  a collaborator (router, codec, transport, connection).
\<close>

datatype error =
    InternalServerError string string
  | MethodNotAllowed string string
  | BodyTooLarge
  | ClosedError "16 word" string
  | External string

record handler_options =
  MaxRecvSize :: int
  Router :: "(request \<Rightarrow> string + api_service) option"

record rpcHandler =
  h_opts :: handler_options
  h_s :: "api_service option"

definition NewHandler :: "handler_options \<Rightarrow> rpcHandler" where
  "NewHandler options = \<lparr>h_opts = options, h_s = None\<rparr>"

definition WithService :: "api_service \<Rightarrow> handler_options \<Rightarrow> rpcHandler" where
  "WithService sv options = \<lparr>h_opts = options, h_s = Some sv\<rparr>"

text \<open>
  The payload handed to the transport: the wrapper type and its bytes. \<open>NewRequest\<close>
  takes it as an interface value, which may be \<open>nil\<close>.
\<close>

datatype rpc_request = ProtoMessage bytes | RawMessage bytes | Frame bytes

record backend_call =
  call_service :: string
  call_endpoint :: string
  call_request :: "rpc_request option"
  call_content_type :: string
  call_streaming :: bool

text \<open>
  What the handler consumes but does not implement: the package constant
  \<open>handler.DefaultMaxRecvSize\<close>, the two envelope codecs (header and body read from
  the request body), \<open>r.ParseForm\<close> (the entries of \<open>r.Form\<close> afterwards; the handler
  drops its error), \<open>json.Marshal\<close> on a flat string map, \<open>qson.ToJSON\<close>, the
  transport's \<open>Call\<close>, \<open>time.ParseDuration\<close>, and the two Unicode-aware functions
  \<open>strings.TrimSpace\<close> and \<open>strings.ToLower\<close>. \<open>ParseForm\<close> of \<open>net/http\<close> always
  parses the query and reads the body as well when the method is \<open>POST\<close>, \<open>PUT\<close> or
  \<open>PATCH\<close>; its first argument says which.
\<close>

record externals =
  DefaultMaxRecvSize :: int
  jsonrpc_read :: "body \<Rightarrow> string + bytes"
  protorpc_read :: "body \<Rightarrow> string + bytes"
  ParseForm :: "bool \<Rightarrow> string \<Rightarrow> header \<Rightarrow> body \<Rightarrow> (string \<times> string list) list"
  json_Marshal :: "(string \<times> string) list \<Rightarrow> string + bytes"
  qson_ToJSON :: "string \<Rightarrow> string + bytes"
  Call :: "backend_call \<Rightarrow> string + bytes"
  ParseDuration :: "string \<Rightarrow> int option"
  TrimSpace :: "string \<Rightarrow> string"
  ToLower :: "string \<Rightarrow> string"

definition external :: "string + bytes \<Rightarrow> error + bytes" where
  "external res = (case res of Inl msg \<Rightarrow> Inl (External msg) | Inr b \<Rightarrow> Inr b)"

section \<open>Content types\<close>

definition jsonCodecs :: "string list" where
  "jsonCodecs = [''application/grpc+json'', ''application/json'', ''application/json-rpc'']"

definition protoCodecs :: "string list" where
  "protoCodecs =
     [''application/grpc'', ''application/grpc+proto'', ''application/proto'',
      ''application/protobuf'', ''application/proto-rpc'', ''application/octet-stream'']"

fun hasCodec :: "string \<Rightarrow> string list \<Rightarrow> bool" where
  "hasCodec ct [] = False"
| "hasCodec ct (codec # codecs) = (if ct = codec then True else hasCodec ct codecs)"

text \<open>
  Both \<open>ServeHTTP\<close> and \<open>serveWebsocket\<close> start with
  \<open>if idx := strings.IndexRune(ct, ';'); idx >= 0 { ct = ct[:idx] }\<close>.
\<close>

definition stripCharset :: "string \<Rightarrow> string" where
  "stripCharset ct = (case IndexRune ct CHR '';'' of None \<Rightarrow> ct | Some idx \<Rightarrow> take idx ct)"

section \<open>The buffer pool and the payload extractor\<close>

text \<open>
  \<open>bufferPool\<close> is process-wide state; the model counts the buffers handed out and the
  buffers handed back.
\<close>

record bufferPool =
  taken :: nat
  returned :: nat

definition bufferPool_Get :: "bufferPool \<Rightarrow> bufferPool" where
  "bufferPool_Get p = p\<lparr>taken := taken p + 1\<rparr>"

definition bufferPool_Put :: "bufferPool \<Rightarrow> bufferPool" where
  "bufferPool_Put p = p\<lparr>returned := returned p + 1\<rparr>"

text \<open>
  \<open>http.MaxBytesReader(w, r.Body, n)\<close>, and \<open>buf.ReadFrom\<close> on the resulting reader:
  reading to the end fails once the body holds more than \<open>n\<close> bytes.
\<close>

definition MaxBytesReader :: "body \<Rightarrow> int \<Rightarrow> body" where
  "MaxBytesReader b n =
     b\<lparr>max_bytes := Some (case max_bytes b of None \<Rightarrow> n | Some m \<Rightarrow> min m n)\<rparr>"

definition ReadFrom :: "body \<Rightarrow> error + bytes" where
  "ReadFrom b =
     (case max_bytes b of
        None \<Rightarrow> Inr (content b)
      | Some n \<Rightarrow> if n < int (length (content b)) then Inl BodyTooLarge else Inr (content b))"

text \<open>
  \<open>requestPayload\<close>: the first \<open>switch\<close> looks at the unstripped content type, the
  second at the method. The deferred \<open>bufferPool.Put\<close> runs on both exits of the
  \<open>PATCH\<close>/\<open>POST\<close> case.
\<close>

definition form_body_method :: "string \<Rightarrow> bool" where
  "form_body_method m = (m = ''POST'' \<or> m = ''PUT'' \<or> m = ''PATCH'')"

definition Form :: "externals \<Rightarrow> request \<Rightarrow> (string \<times> string list) list" where
  "Form x r = ParseForm x (form_body_method (Method r)) (RawQuery r) (Header r) (Body r)"

definition requestPayload ::
  "externals \<Rightarrow> request \<Rightarrow> bufferPool \<Rightarrow> (error + bytes) \<times> bufferPool" where
  "requestPayload x r p =
     (let ct = Get (Header r) ''Content-Type'' in
      if Contains ct ''application/json-rpc'' then (external (jsonrpc_read x (Body r)), p)
      else if Contains ct ''application/proto-rpc'' \<or> Contains ct ''application/octet-stream''
        then (external (protorpc_read x (Body r)), p)
      else if Contains ct ''application/www-x-form-urlencoded''
        then (external (json_Marshal x (map (\<lambda>(k, v). (k, Join v '','')) (Form x r))), p)
      else if Method r = ''GET''
        then (if 0 < length (RawQuery r) then (external (qson_ToJSON x (RawQuery r)), p)
              else (Inr [], p))
      else if Method r = ''PATCH'' \<or> Method r = ''POST''
        then (let buf = bufferPool_Get p in
              case ReadFrom (Body r) of
                Inl err \<Rightarrow> (Inl err, bufferPool_Put buf)
              | Inr b \<Rightarrow> (Inr b, bufferPool_Put buf))
      else (Inr [], p))"

section \<open>The upgrade gate\<close>

fun contains_values :: "externals \<Rightarrow> string \<Rightarrow> string list \<Rightarrow> bool" where
  "contains_values x val [] = False"
| "contains_values x val (v # vv) =
     (if val = ToLower x (TrimSpace x v) then True else contains_values x val vv)"

definition contains_header :: "externals \<Rightarrow> request \<Rightarrow> string \<Rightarrow> string \<Rightarrow> bool" where
  "contains_header x r key val =
     contains_values x val (Split (Get (Header r) key) CHR '','')"

definition isWebSocket :: "externals \<Rightarrow> request \<Rightarrow> bool" where
  "isWebSocket x r =
     (if contains_header x r ''Connection'' ''upgrade''
         \<and> contains_header x r ''Upgrade'' ''websocket''
      then True else False)"

fun stream_endpoint :: "string \<Rightarrow> registry_endpoint list \<Rightarrow> bool" where
  "stream_endpoint name [] = False"
| "stream_endpoint name (ep # eps) =
     (if Name ep \<noteq> name then stream_endpoint name eps
      else if index_map (Metadata ep) ''stream'' = ''true'' then True
      else stream_endpoint name eps)"

fun stream_service :: "string \<Rightarrow> registry_service list \<Rightarrow> bool" where
  "stream_service name [] = False"
| "stream_service name (service # services) =
     (if stream_endpoint name (Endpoints service) then True else stream_service name services)"

definition isStream :: "externals \<Rightarrow> request \<Rightarrow> api_service \<Rightarrow> bool" where
  "isStream x r srv =
     (if \<not> isWebSocket x r then False
      else stream_service (EndpointName (Endpoint srv)) (Services srv))"

section \<open>ServeHTTP\<close>

text \<open>
  What \<open>ServeHTTP\<close> does with a request: the calls it issues on the transport, and
  whether it answers with \<open>writeError\<close>, with \<open>writeResponse\<close>, or hands the request
  to \<open>serveWebsocket\<close>.
\<close>

datatype reply =
    WriteError error
  | WriteResponse bytes
  | ServeWebsocket request api_service

definition body_size :: "externals \<Rightarrow> rpcHandler \<Rightarrow> int" where
  "body_size x h =
     (if 0 < MaxRecvSize (h_opts h) then MaxRecvSize (h_opts h) else DefaultMaxRecvSize x)"

text \<open>Line 79: \<open>r.Body = http.MaxBytesReader(w, r.Body, bsize)\<close>.\<close>

definition limit_body :: "externals \<Rightarrow> rpcHandler \<Rightarrow> request \<Rightarrow> request" where
  "limit_body x h r = r\<lparr>Body := MaxBytesReader (Body r) (body_size x h)\<rparr>"

text \<open>Lines 82 to 99: the service given to the handler, else the router's, else none.\<close>

definition resolve :: "rpcHandler \<Rightarrow> request \<Rightarrow> error + api_service" where
  "resolve h r =
     (case h_s h of
        Some sv \<Rightarrow> Inr sv
      | None \<Rightarrow>
          (case Router (h_opts h) of
             Some route \<Rightarrow>
               (case route r of
                  Inl msg \<Rightarrow> Inl (InternalServerError ''go.micro.api'' msg)
                | Inr sv \<Rightarrow> Inr sv)
           | None \<Rightarrow> Inl (InternalServerError ''go.micro.api'' ''no route found'')))"

text \<open>Lines 126 to 201: the standard call path.\<close>

definition unary_request :: "api_service \<Rightarrow> string \<Rightarrow> bytes \<Rightarrow> backend_call" where
  "unary_request service ct br =
     (if hasCodec ct protoCodecs
      then \<lparr>call_service = ServiceName service,
            call_endpoint = EndpointName (Endpoint service),
            call_request = Some (ProtoMessage (if 0 < length br then br else [])),
            call_content_type = ct,
            call_streaming = False\<rparr>
      else \<lparr>call_service = ServiceName service,
            call_endpoint = EndpointName (Endpoint service),
            call_request = Some (RawMessage (if 0 < length br then br else [])),
            call_content_type = (if \<not> hasCodec ct jsonCodecs then ''application/json'' else ct),
            call_streaming = False\<rparr>)"

definition unary ::
  "externals \<Rightarrow> request \<Rightarrow> api_service \<Rightarrow> string \<Rightarrow> bufferPool
     \<Rightarrow> backend_call list \<times> reply \<times> bufferPool" where
  "unary x r service ct p =
     (case requestPayload x r p of
        (Inl err, p') \<Rightarrow> ([], WriteError err, p')
      | (Inr br, p') \<Rightarrow>
          (let req = unary_request service ct br in
           case Call x req of
             Inl msg \<Rightarrow> ([req], WriteError (External msg), p')
           | Inr rsp \<Rightarrow> ([req], WriteResponse rsp, p')))"

definition ServeHTTP ::
  "externals \<Rightarrow> rpcHandler \<Rightarrow> request \<Rightarrow> bufferPool
     \<Rightarrow> backend_call list \<times> reply \<times> bufferPool" where
  "ServeHTTP x h r0 p =
     (let r = limit_body x h r0 in
      case resolve h r of
        Inl err \<Rightarrow> ([], WriteError err, p)
      | Inr service \<Rightarrow>
          if Method r \<noteq> ''GET'' \<and> (Router (h_opts h) \<noteq> None \<and> Method r \<noteq> ''POST'')
          then ([], WriteError (MethodNotAllowed ''go.micro.api'' ''method not allowed''), p)
          else
            (let ct = stripCharset (Get (Header r) ''Content-Type'') in
             if isStream x r service then ([], ServeWebsocket r service, p)
             else unary x r service ct p))"

section \<open>The streaming bridge: setup\<close>

definition OpText :: "8 word" where
  "OpText = 0x1"

definition OpBinary :: "8 word" where
  "OpBinary = 0x2"

definition StatusNormalClosure :: "16 word" where
  "StatusNormalClosure = 1000"

definition StatusGoingAway :: "16 word" where
  "StatusGoingAway = 1001"

definition StatusNoStatusRcvd :: "16 word" where
  "StatusNoStatusRcvd = 1005"

datatype call_option = WithRouter "registry_service list" | WithRequestTimeout int

text \<open>
  Program points of the two relay directions. The upstream relay is \<open>writeLoop\<close>:
  at its \<open>select\<close>, blocked in \<open>wsutil.ReadClientData\<close>, blocked in \<open>stream.Send\<close>,
  or returned (\<open>UpIdle\<close>: not spawned). The downstream relay is the \<open>for\<close> loop of
  \<open>serveWebsocket\<close>: at its \<open>select\<close>, blocked in \<open>rsp.Read\<close>, in
  \<open>wsutil.WriteServerMessage\<close>, in \<open>rw.Flush\<close>, or returned.
\<close>

datatype up_pc = UpIdle | UpSelect | UpRead | UpSend | UpReturned

datatype down_pc = DownSelect | DownRead | DownWrite | DownFlush | DownReturned

text \<open>
  A bridge session: the two program points, the two cancellation signals, and what has
  been done so far to the backend stream, to the connection and to the logger.
\<close>

record session =
  up :: up_pc
  down :: down_pc
  request_done :: bool
  stream_done :: bool
  op :: "8 word"
  upgrade_header :: header
  stream_call :: "(backend_call \<times> call_option list) option"
  sends :: "rpc_request list"
  stream_closes :: nat
  writes :: "(8 word \<times> bytes) list"
  flushes :: nat
  conn_closes :: nat
  errors :: "error list"

text \<open>
  What the collaborators answer during one session: whether the logger is at error
  level, and the errors (if any) of \<open>upgrader.Upgrade\<close>, of \<open>c.Stream\<close>, of the first
  \<open>stream.Send\<close> and of \<open>conn.Close\<close>.
\<close>

record dial =
  V_ErrorLevel :: bool
  upgrade_error :: "string option"
  stream_error :: "string option"
  send_error :: "string option"
  close_error :: "string option"

text \<open>\<open>if logger.V(logger.ErrorLevel) { logger.Error(ctx, err.Error()) }\<close>.\<close>

definition logError :: "dial \<Rightarrow> error \<Rightarrow> session \<Rightarrow> session" where
  "logError d err s = (if V_ErrorLevel d then s\<lparr>errors := errors s @ [err]\<rparr> else s)"

text \<open>The deferred \<open>conn.Close()\<close> of \<open>serveWebsocket\<close>, which logs its own error.\<close>

definition conn_Close :: "dial \<Rightarrow> session \<Rightarrow> session" where
  "conn_Close d s =
     (let s' = s\<lparr>conn_closes := conn_closes s + 1\<rparr> in
      case close_error d of None \<Rightarrow> s' | Some msg \<Rightarrow> logError d (External msg) s')"

text \<open>Lines 41 to 60: the framing op from the content type, then from the hints.\<close>

fun protocol_hints :: "string list \<Rightarrow> header \<times> 8 word \<Rightarrow> header \<times> 8 word" where
  "protocol_hints [] acc = acc"
| "protocol_hints (p # proto) (hdr, opc) =
     (if p = ''binary''
      then protocol_hints proto (hdr(''Sec-WebSocket-Protocol'' \<mapsto> [''binary'']), OpBinary)
      else protocol_hints proto (hdr, OpBinary))"

definition negotiate :: "request \<Rightarrow> string \<Rightarrow> header \<times> 8 word" where
  "negotiate r ct =
     (let opc = (if ct = ''application/json'' then OpText else OpBinary) in
      case Header r ''Sec-WebSocket-Protocol'' of
        None \<Rightarrow> (Map.empty, opc)
      | Some proto \<Rightarrow> protocol_hints proto (Map.empty, opc))"

text \<open>Lines 31 to 39: the call options.\<close>

definition callOpts :: "externals \<Rightarrow> request \<Rightarrow> api_service \<Rightarrow> call_option list" where
  "callOpts x r service =
     (let t = Get (Header r) ''Timeout'' in
      WithRouter (Services service) #
        (if t \<noteq> [] then
           (case ParseDuration x (t @ ''s'') of
              None \<Rightarrow> []
            | Some td \<Rightarrow> [WithRequestTimeout td])
         else []))"

text \<open>
  Lines 101 to 122. \<open>request\<close> is an interface variable, \<open>nil\<close> until the \<open>switch\<close>
  assigns it; both branches of the \<open>switch\<close> assign a pointer.
\<close>

definition stream_wrapper :: "string \<Rightarrow> bytes \<Rightarrow> rpc_request option" where
  "stream_wrapper ct payload =
     (if ct = ''application/json'' then Some (RawMessage payload) else Some (Frame payload))"

definition stream_request ::
  "api_service \<Rightarrow> string \<Rightarrow> rpc_request option \<Rightarrow> backend_call" where
  "stream_request service ct request =
     \<lparr>call_service = ServiceName service,
      call_endpoint = EndpointName (Endpoint service),
      call_request = request,
      call_content_type = (if ct = [] then ''application/json'' else ct),
      call_streaming = True\<rparr>"

definition new_session :: "8 word \<Rightarrow> header \<Rightarrow> session" where
  "new_session opc hdr =
     \<lparr>up = UpIdle, down = DownReturned, request_done = False, stream_done = False,
      op = opc, upgrade_header = hdr, stream_call = None, sends = [], stream_closes = 0,
      writes = [], flushes = 0, conn_closes = 0, errors = []\<rparr>"

text \<open>
  \<open>serveWebsocket\<close> up to the point where both relays run: every early \<open>return\<close>
  leaves the session with the downstream side returned and the upstream relay not
  spawned; the returns after the upgrade run the deferred \<open>conn.Close()\<close>.
\<close>

definition serveWebsocket ::
  "externals \<Rightarrow> dial \<Rightarrow> request \<Rightarrow> api_service \<Rightarrow> bufferPool \<Rightarrow> session \<times> bufferPool" where
  "serveWebsocket x d r service p =
     (let ct = stripCharset (Get (Header r) ''Content-Type'');
          opts = callOpts x r service;
          (hdr, opc) = negotiate r ct;
          s = new_session opc hdr
      in
      case requestPayload x r p of
        (Inl err, p') \<Rightarrow> (logError d err s, p')
      | (Inr payload, p') \<Rightarrow>
          (case upgrade_error d of
             Some msg \<Rightarrow> (logError d (External msg) s, p')
           | None \<Rightarrow>
               (let request = stream_wrapper ct payload;
                    req = stream_request service ct request;
                    s1 = s\<lparr>stream_call := Some (req, opts)\<rparr>
                in
                case stream_error d of
                  Some msg \<Rightarrow> (conn_Close d (logError d (External msg) s1), p')
                | None \<Rightarrow>
                    (case request of
                       None \<Rightarrow> (s1\<lparr>up := UpSelect, down := DownSelect\<rparr>, p')
                     | Some rq \<Rightarrow>
                         (let s2 = s1\<lparr>sends := sends s1 @ [rq]\<rparr> in
                          case send_error d of
                            Some msg \<Rightarrow> (conn_Close d (logError d (External msg) s2), p')
                          | None \<Rightarrow> (s2\<lparr>up := UpSelect, down := DownSelect\<rparr>, p'))))))"

section \<open>The streaming bridge: the two relays\<close>

text \<open>
  What can happen to a running session. The two contexts end when the environment
  says so. \<open>UpRun\<close> and \<open>DownRun\<close> give a relay the processor: at its \<open>select\<close> it
  looks at the signals without blocking and either returns or starts its read;
  anywhere else it is blocked in a call (or has returned) and nothing changes, with
  one exception: a connection read does not outlive the connection, so once the deferred
  \<open>conn.Close()\<close> of \<open>serveWebsocket\<close> has run, the upstream relay's read fails with the
  network error of a closed connection. The other events are the returns of the
  blocking calls, with what they return.
\<close>

datatype event =
    RequestCancelled
  | StreamContextDone
  | UpRun
  | ReadClientData bytes "8 word" "error option"
  | Sent "string option"
  | DownRun
  | RspRead bytes "string option"
  | Written "string option"
  | Flushed "string option"

text \<open>\<open>defer stream.Close()\<close>: every \<open>return\<close> of \<open>writeLoop\<close> goes through here.\<close>

definition up_return :: "session \<Rightarrow> session" where
  "up_return s = s\<lparr>up := UpReturned, stream_closes := stream_closes s + 1\<rparr>"

definition down_return :: "dial \<Rightarrow> session \<Rightarrow> session" where
  "down_return d s = conn_Close d (s\<lparr>down := DownReturned\<rparr>)"

text \<open>Lines 194 to 227 of \<open>writeLoop\<close>, entered when \<open>ReadClientData\<close> returns.\<close>

definition up_read :: "dial \<Rightarrow> session \<Rightarrow> bytes \<Rightarrow> 8 word \<Rightarrow> error option \<Rightarrow> session" where
  "up_read d s buf opc err =
     (case err of
        Some e \<Rightarrow>
          (case e of
             ClosedError code reason \<Rightarrow>
               if code = StatusGoingAway then up_return s
               else if code = StatusNormalClosure \<or> code = StatusNoStatusRcvd then up_return s
               else up_return (logError d e s)
           | _ \<Rightarrow> up_return (logError d e s))
      | None \<Rightarrow>
          if opc = OpText \<or> opc = OpBinary
          then s\<lparr>up := UpSend, sends := sends s @ [Frame buf]\<rparr>
          else s\<lparr>up := UpSelect\<rparr>)"

text \<open>Lines 155 to 173 of \<open>serveWebsocket\<close>, entered when \<open>rsp.Read\<close> returns.\<close>

definition down_read :: "dial \<Rightarrow> session \<Rightarrow> bytes \<Rightarrow> string option \<Rightarrow> session" where
  "down_read d s buf err =
     (case err of
        Some msg \<Rightarrow>
          if Contains msg ''context canceled'' then down_return d s
          else down_return d (logError d (External msg) s)
      | None \<Rightarrow> s\<lparr>down := DownWrite, writes := writes s @ [(op s, buf)]\<rparr>)"

fun step :: "dial \<Rightarrow> session \<Rightarrow> event \<Rightarrow> session option" where
  "step d s RequestCancelled = Some (s\<lparr>request_done := True\<rparr>)"
| "step d s StreamContextDone = Some (s\<lparr>stream_done := True\<rparr>)"
| "step d s UpRun =
     (if up s = UpSelect
      then (if stream_done s then Some (up_return s) else Some (s\<lparr>up := UpRead\<rparr>))
      else if up s = UpRead \<and> 0 < conn_closes s
      then Some (up_read d s [] 0 (Some (External ''use of closed network connection'')))
      else Some s)"
| "step d s (ReadClientData buf opc err) =
     (if up s = UpRead then Some (up_read d s buf opc err) else None)"
| "step d s (Sent err) =
     (if up s = UpSend
      then (case err of
              Some msg \<Rightarrow> Some (up_return (logError d (External msg) s))
            | None \<Rightarrow> Some (s\<lparr>up := UpSelect\<rparr>))
      else None)"
| "step d s DownRun =
     (if down s = DownSelect
      then (if request_done s \<or> stream_done s then Some (down_return d s)
            else Some (s\<lparr>down := DownRead\<rparr>))
      else Some s)"
| "step d s (RspRead buf err) =
     (if down s = DownRead then Some (down_read d s buf err) else None)"
| "step d s (Written err) =
     (if down s = DownWrite
      then (case err of
              Some msg \<Rightarrow> Some (down_return d (logError d (External msg) s))
            | None \<Rightarrow> Some (s\<lparr>down := DownFlush, flushes := flushes s + 1\<rparr>))
      else None)"
| "step d s (Flushed err) =
     (if down s = DownFlush
      then (case err of
              Some msg \<Rightarrow> Some (down_return d (logError d (External msg) s))
            | None \<Rightarrow> Some (s\<lparr>down := DownSelect\<rparr>))
      else None)"

text \<open>A run: the events in order; \<open>None\<close> when an event cannot happen where it stands.\<close>

fun run :: "dial \<Rightarrow> session \<Rightarrow> event list \<Rightarrow> session option" where
  "run d s [] = Some s"
| "run d s (e # es) = (case step d s e of None \<Rightarrow> None | Some s' \<Rightarrow> run d s' es)"

text \<open>The data frames that the connection delivered during a run, in order.\<close>

fun data_frames :: "event list \<Rightarrow> bytes list" where
  "data_frames [] = []"
| "data_frames (ReadClientData buf opc None # es) =
     (if opc = OpText \<or> opc = OpBinary then buf # data_frames es else data_frames es)"
| "data_frames (e # es) = data_frames es"

section \<open>Concrete requests and collaborators\<close>

text \<open>
  Small concrete inputs on which the theorems below are exercised: collaborators that
  answer with fixed values, one service with one stream-capable endpoint, a handler
  with a router and one without, and a few requests.
\<close>

text \<open>
  \<open>strings.TrimSpace\<close> and \<open>strings.ToLower\<close> as they act on text that is ASCII
  throughout: the six ASCII white-space bytes are trimmed, the letters \<open>A\<close> to \<open>Z\<close>
  are mapped. The concrete requests below hold ASCII text only.
\<close>

definition asciiSpace :: "char \<Rightarrow> bool" where
  "asciiSpace c = (c \<in> set [CHR '' '', CHR 0x09, CHR 0x0A, CHR 0x0B, CHR 0x0C, CHR 0x0D])"

definition asciiTrimSpace :: "string \<Rightarrow> string" where
  "asciiTrimSpace v = rev (dropWhile asciiSpace (rev (dropWhile asciiSpace v)))"

definition asciiToLower :: "string \<Rightarrow> string" where
  "asciiToLower v = map lowerChar v"

definition demo_externals :: externals where
  "demo_externals =
     \<lparr>DefaultMaxRecvSize = 104857600,
      jsonrpc_read = (\<lambda>b. Inl ''no envelope''),
      protorpc_read = (\<lambda>b. Inl ''no envelope''),
      ParseForm = (\<lambda>post query hdr b. []),
      json_Marshal = (\<lambda>vals. Inr ''{}''),
      qson_ToJSON = (\<lambda>q. Inl ''no query''),
      Call = (\<lambda>c. Inr ''ok''),
      ParseDuration = (\<lambda>t. None),
      TrimSpace = asciiTrimSpace,
      ToLower = asciiToLower\<rparr>"

definition demo_service :: api_service where
  "demo_service =
     \<lparr>ServiceName = ''chat'',
      Endpoint = \<lparr>EndpointName = ''Chat.Stream''\<rparr>,
      Services =
        [\<lparr>Endpoints = [\<lparr>Name = ''Chat.Stream'', Metadata = [''stream'' \<mapsto> ''true'']\<rparr>]\<rparr>]\<rparr>"

definition routed_options :: handler_options where
  "routed_options = \<lparr>MaxRecvSize = 8, Router = Some (\<lambda>r. Inr demo_service)\<rparr>"

definition direct_options :: handler_options where
  "direct_options = \<lparr>MaxRecvSize = 8, Router = None\<rparr>"

definition pool0 :: bufferPool where
  "pool0 = \<lparr>taken = 0, returned = 0\<rparr>"

text \<open>A request with the two upgrade headers, and one without.\<close>

definition upgrade_request :: "string \<Rightarrow> string \<Rightarrow> request" where
  "upgrade_request m ct =
     \<lparr>Method = m,
      Header = [''Connection'' \<mapsto> [''keep-alive, Upgrade''], ''Upgrade'' \<mapsto> [''websocket''],
                ''Content-Type'' \<mapsto> [ct]],
      RawQuery = [],
      Body = \<lparr>content = [], max_bytes = None\<rparr>\<rparr>"

definition plain_request :: "string \<Rightarrow> string \<Rightarrow> bytes \<Rightarrow> request" where
  "plain_request m ct b =
     \<lparr>Method = m,
      Header = [''Content-Type'' \<mapsto> [ct]],
      RawQuery = [],
      Body = \<lparr>content = b, max_bytes = None\<rparr>\<rparr>"

text \<open>Collaborators that never fail, with the logger at error level.\<close>

definition good_dial :: dial where
  "good_dial =
     \<lparr>V_ErrorLevel = True, upgrade_error = None, stream_error = None, send_error = None,
      close_error = None\<rparr>"

text \<open>The session that \<open>serveWebsocket\<close> sets up for a JSON upgrade request.\<close>

definition demo_session :: session where
  "demo_session =
     fst (serveWebsocket demo_externals good_dial
            (limit_body demo_externals (WithService demo_service direct_options)
               (upgrade_request ''GET'' ''application/json''))
            demo_service pool0)"

text \<open>
  An upgrade request as the server of \<open>net/http\<close> hands it over: the header map is built
  from the header lines.
\<close>

definition wire_request :: "(string \<times> string) list \<Rightarrow> request" where
  "wire_request header_lines =
     \<lparr>Method = ''GET'',
      Header = ReadMIMEHeader header_lines Map.empty,
      RawQuery = [],
      Body = \<lparr>content = [], max_bytes = None\<rparr>\<rparr>"

definition binary_hint_request :: request where
  "binary_hint_request =
     wire_request
       [(''Connection'', ''Upgrade''), (''Upgrade'', ''websocket''),
        (''Content-Type'', ''application/json''), (''Sec-WebSocket-Protocol'', ''binary'')]"

text \<open>
  A run of the session: two data frames and a ping arrive from the client, one chunk
  arrives from the backend, then the client closes with the going-away status.
\<close>

definition going_away_run :: "event list" where
  "going_away_run =
     [UpRun, ReadClientData ''hello'' OpText None, Sent None,
      UpRun, ReadClientData ''ping'' 0x9 None,
      DownRun, RspRead ''world'' None, Written None, Flushed None,
      UpRun, ReadClientData ''bye'' OpBinary None, Sent None,
      UpRun, ReadClientData [] 0x8 (Some (ClosedError StatusGoingAway []))]"


section \<open>Unfolding rules for concrete inputs\<close>

lemmas demo_defs =
  demo_externals_def demo_service_def routed_options_def direct_options_def pool0_def
  upgrade_request_def plain_request_def good_dial_def

lemmas gate_defs =
  isStream_def isWebSocket_def contains_header_def Get_def asciiToLower_def
  asciiTrimSpace_def lowerChar_def asciiSpace_def index_map_def

lemmas http_defs =
  ServeHTTP_def limit_body_def body_size_def MaxBytesReader_def resolve_def unary_def
  unary_request_def requestPayload_def ReadFrom_def external_def stripCharset_def
  NewHandler_def WithService_def jsonCodecs_def protoCodecs_def bufferPool_Get_def
  bufferPool_Put_def Form_def form_body_method_def

lemmas bridge_defs =
  serveWebsocket_def negotiate_def callOpts_def stream_wrapper_def stream_request_def
  new_session_def logError_def conn_Close_def OpText_def OpBinary_def

lemmas relay_defs =
  up_return_def down_return_def up_read_def down_read_def logError_def conn_Close_def
  StatusGoingAway_def StatusNormalClosure_def StatusNoStatusRcvd_def OpText_def OpBinary_def

section \<open>Errors that the handler can write\<close>

lemma external_error: "external res = Inl e \<Longrightarrow> \<exists>m. e = External m"
  by (auto simp: external_def split: sum.splits)

lemma ReadFrom_error: "ReadFrom b = Inl e \<Longrightarrow> e = BodyTooLarge"
  by (auto simp: ReadFrom_def split: option.splits if_splits)

lemma requestPayload_error:
  "requestPayload x r p = (Inl e, p') \<Longrightarrow> e = BodyTooLarge \<or> (\<exists>m. e = External m)"
  by (auto simp: requestPayload_def Let_def split: if_splits sum.splits
           dest: external_error ReadFrom_error)

lemma unary_reply:
  "unary x r sv ct p = (cs, rep, p') \<Longrightarrow>
     (\<exists>b. rep = WriteResponse b) \<or> rep = WriteError BodyTooLarge \<or>
     (\<exists>m. rep = WriteError (External m))"
  by (auto simp: unary_def Let_def split: prod.splits sum.splits dest: requestPayload_error)

lemma resolve_error: "resolve h r = Inl e \<Longrightarrow> \<exists>a b. e = InternalServerError a b"
  by (auto simp: resolve_def split: option.splits sum.splits)

lemma limit_body_simps:
  "Header (limit_body x h r) = Header r" "Method (limit_body x h r) = Method r"
  "RawQuery (limit_body x h r) = RawQuery r"
  by (simp_all add: limit_body_def)

section \<open>Reading the body\<close>

lemma raw_body:
  assumes "Method r = ''POST'' \<or> Method r = ''PATCH''"
    and "\<not> Contains (Get (Header r) ''Content-Type'') ''application/json-rpc''"
    and "\<not> Contains (Get (Header r) ''Content-Type'') ''application/proto-rpc''"
    and "\<not> Contains (Get (Header r) ''Content-Type'') ''application/octet-stream''"
    and "\<not> Contains (Get (Header r) ''Content-Type'') ''application/www-x-form-urlencoded''"
  shows "requestPayload x r p =
           (ReadFrom (Body r), p\<lparr>taken := taken p + 1, returned := returned p + 1\<rparr>)"
  using assms
  by (auto simp: requestPayload_def Let_def bufferPool_Get_def bufferPool_Put_def
           split: sum.splits)

text \<open>
  A \<open>GET\<close> request outside the envelope and form encodings, with a query string: the
  payload is whatever \<open>qson.ToJSON\<close> makes of the raw query, its error included.
\<close>

lemma query_payload:
  assumes "Method r = ''GET''" and "RawQuery r \<noteq> []"
    and "\<not> Contains (Get (Header r) ''Content-Type'') ''application/json-rpc''"
    and "\<not> Contains (Get (Header r) ''Content-Type'') ''application/proto-rpc''"
    and "\<not> Contains (Get (Header r) ''Content-Type'') ''application/octet-stream''"
    and "\<not> Contains (Get (Header r) ''Content-Type'') ''application/www-x-form-urlencoded''"
  shows "requestPayload x r p = (external (qson_ToJSON x (RawQuery r)), p)"
  using assms by (simp add: requestPayload_def Let_def)

lemma ReadFrom_limit_body:
  assumes "max_bytes (Body r) = None"
  shows "ReadFrom (Body (limit_body x h r)) =
           (if body_size x h < int (length (content (Body r))) then Inl BodyTooLarge
            else Inr (content (Body r)))"
  using assms by (simp add: ReadFrom_def limit_body_def MaxBytesReader_def)

section \<open>The method gate\<close>

lemma ServeHTTP_rejects:
  assumes "fst (snd (ServeHTTP x h r p)) = WriteError (MethodNotAllowed a b)"
  shows "Router (h_opts h) \<noteq> None \<and> Method r \<noteq> ''GET'' \<and> Method r \<noteq> ''POST''"
proof (cases "resolve h (limit_body x h r)")
  case (Inl e)
  with assms show ?thesis
    by (auto simp: ServeHTTP_def Let_def dest: resolve_error)
next
  case (Inr service)
  obtain cs rep p' where u:
    "unary x (limit_body x h r) service (stripCharset (Get (Header r) ''Content-Type'')) p
       = (cs, rep, p')"
    by (metis prod_cases3)
  from unary_reply [OF u] have "rep \<noteq> WriteError (MethodNotAllowed a b)"
    by auto
  with assms Inr u show ?thesis
    by (auto simp: ServeHTTP_def Let_def limit_body_simps split: if_splits)
qed

lemma PATCH_like_POST:
  "requestPayload x (r\<lparr>Method := ''PATCH''\<rparr>) p = requestPayload x (r\<lparr>Method := ''POST''\<rparr>) p"
  by (simp add: requestPayload_def Form_def form_body_method_def Let_def)

lemma ServeHTTP_WithService:
  assumes "Router options = None"
  shows "ServeHTTP x (WithService sv options) r p =
           (let r' = limit_body x (WithService sv options) r in
            if isStream x r' sv then ([], ServeWebsocket r' sv, p)
            else unary x r' sv (stripCharset (Get (Header r') ''Content-Type'')) p)"
  using assms by (simp add: ServeHTTP_def WithService_def resolve_def Let_def)

lemma PATCH_body:
  assumes "\<not> Contains (Get (Header r) ''Content-Type'') ''application/json-rpc''"
    and "\<not> Contains (Get (Header r) ''Content-Type'') ''application/proto-rpc''"
    and "\<not> Contains (Get (Header r) ''Content-Type'') ''application/octet-stream''"
    and "\<not> Contains (Get (Header r) ''Content-Type'') ''application/www-x-form-urlencoded''"
  shows "requestPayload x (r\<lparr>Method := ''PATCH''\<rparr>) p =
           (ReadFrom (Body r), p\<lparr>taken := taken p + 1, returned := returned p + 1\<rparr>)"
  using assms raw_body [of "r\<lparr>Method := ''PATCH''\<rparr>" x p] by simp

text \<open>
  Claim C10. \<open>ServeHTTP\<close> answers with its own 405 rejection only when a router is
  configured and the method is neither \<open>GET\<close> nor \<open>POST\<close>. A handler built by
  \<open>WithService\<close> with no router accepts every method: the request goes to the upgrade
  gate and then to the bridge or to the standard call path, whatever its method. A
  \<open>PATCH\<close> request's payload is extracted exactly as that of the same request sent
  as \<open>POST\<close>; outside the envelope and form encodings that payload is what reading
  the request body to its end returns (the body itself, or the reader's error), through
  a buffer taken from the pool and put back.
\<close>

theorem method_gate:
  "(fst (snd (ServeHTTP x h r p)) =
        WriteError (MethodNotAllowed ''go.micro.api'' ''method not allowed'')
      \<longrightarrow> Router (h_opts h) \<noteq> None \<and> Method r \<noteq> ''GET'' \<and> Method r \<noteq> ''POST'')
   \<and> (Router options = None
      \<longrightarrow> ServeHTTP x (WithService sv options) r p =
            (let r' = limit_body x (WithService sv options) r in
             if isStream x r' sv then ([], ServeWebsocket r' sv, p)
             else unary x r' sv (stripCharset (Get (Header r') ''Content-Type'')) p))
   \<and> requestPayload x (r\<lparr>Method := ''PATCH''\<rparr>) p
       = requestPayload x (r\<lparr>Method := ''POST''\<rparr>) p
   \<and> (\<not> Contains (Get (Header r) ''Content-Type'') ''application/json-rpc''
      \<and> \<not> Contains (Get (Header r) ''Content-Type'') ''application/proto-rpc''
      \<and> \<not> Contains (Get (Header r) ''Content-Type'') ''application/octet-stream''
      \<and> \<not> Contains (Get (Header r) ''Content-Type'') ''application/www-x-form-urlencoded''
      \<longrightarrow> requestPayload x (r\<lparr>Method := ''PATCH''\<rparr>) p =
            (ReadFrom (Body r), p\<lparr>taken := taken p + 1, returned := returned p + 1\<rparr>))"
  using ServeHTTP_rejects [of x h r p] ServeHTTP_WithService [of options x sv r p]
    PATCH_like_POST [of x r p] PATCH_body [of r x p]
  by blast

theorem method_gate_witness:
  "fst (snd (ServeHTTP demo_externals (NewHandler routed_options)
               (plain_request ''PUT'' ''application/json'' ''patched body'') pool0))
     = WriteError (MethodNotAllowed ''go.micro.api'' ''method not allowed'')
   \<and> Router (h_opts (NewHandler routed_options)) \<noteq> None
   \<and> Router direct_options = None
   \<and> fst (snd (ServeHTTP demo_externals (WithService demo_service direct_options)
               (plain_request ''PUT'' ''application/json'' ''patched body'') pool0))
     = WriteResponse ''ok''
   \<and> requestPayload demo_externals
       (plain_request ''PATCH'' ''application/json'' ''patched body'') pool0
     = (Inr ''patched body'', \<lparr>taken = 1, returned = 1\<rparr>)
   \<and> requestPayload demo_externals
       (plain_request ''POST'' ''application/json'' ''patched body'') pool0
     = (Inr ''patched body'', \<lparr>taken = 1, returned = 1\<rparr>)"
  using method_gate [of demo_externals "NewHandler routed_options"
      "plain_request ''PUT'' ''application/json'' ''patched body''" pool0 direct_options
      demo_service]
  by (simp add: demo_defs http_defs gate_defs)

section \<open>The upgrade gate in ServeHTTP\<close>

lemma contains_values_iff:
  "contains_values x val vv = (\<exists>v \<in> set vv. ToLower x (TrimSpace x v) = val)"
  by (induction vv) auto

lemma isWebSocket_iff:
  "isWebSocket x r =
     ((\<exists>v \<in> set (Split (Get (Header r) ''Connection'') CHR '','').
          ToLower x (TrimSpace x v) = ''upgrade'')
      \<and> (\<exists>v \<in> set (Split (Get (Header r) ''Upgrade'') CHR '','').
          ToLower x (TrimSpace x v) = ''websocket''))"
  by (simp add: isWebSocket_def contains_header_def contains_values_iff)

lemma index_map_true: "(index_map m k = ''true'') = (m k = Some ''true'')"
  by (auto simp: index_map_def split: option.splits)

lemma stream_endpoint_iff:
  "stream_endpoint name eps =
     (\<exists>ep \<in> set eps. Name ep = name \<and> Metadata ep ''stream'' = Some ''true'')"
  by (induction eps) (auto simp: index_map_true)

lemma stream_service_iff:
  "stream_service name svs =
     (\<exists>sv \<in> set svs. \<exists>ep \<in> set (Endpoints sv).
        Name ep = name \<and> Metadata ep ''stream'' = Some ''true'')"
  by (induction svs) (auto simp: stream_endpoint_iff)

lemma isStream_limit_body: "isStream x (limit_body y h r) srv = isStream x r srv"
  by (simp add: isStream_def isWebSocket_def contains_header_def limit_body_simps)

lemma unary_not_bridge: "fst (snd (unary x r sv ct p)) \<noteq> ServeWebsocket r' sv'"
proof -
  obtain cs rep p' where u: "unary x r sv ct p = (cs, rep, p')"
    by (metis prod_cases3)
  from unary_reply [OF u] u show ?thesis by auto
qed

lemma ServeHTTP_dispatch:
  assumes "resolve h (limit_body x h r) = Inr service"
    and "Method r = ''GET'' \<or> Router (h_opts h) = None \<or> Method r = ''POST''"
  shows "ServeHTTP x h r p =
           (if isStream x r service then ([], ServeWebsocket (limit_body x h r) service, p)
            else unary x (limit_body x h r) service
                   (stripCharset (Get (Header r) ''Content-Type'')) p)"
  using assms by (auto simp: ServeHTTP_def Let_def limit_body_simps isStream_limit_body)

text \<open>
  Claim C6, as the code has it. For a request whose service is resolved and whose
  method passes the method gate, \<open>ServeHTTP\<close> hands the request to \<open>serveWebsocket\<close>
  if and only if some comma-separated element of the first \<open>Connection\<close> value is
  \<open>upgrade\<close> and some element of the first \<open>Upgrade\<close> value is \<open>websocket\<close>, each
  after \<open>strings.TrimSpace\<close> and \<open>strings.ToLower\<close> (whatever these two functions of
  the Go library compute), and some endpoint of the service's instances has exactly
  the resolved endpoint's name and metadata \<open>stream\<close> equal to \<open>true\<close>. When no endpoint
  of that name carries the attribute, the request takes the standard call path, upgrade
  headers or not. The counterexample is the request that the method gate stops first:
  a \<open>PUT\<close> upgrade request through a handler with a router gets the 405 answer although
  both conditions of the claim hold.
\<close>

theorem stream_gate:
  assumes "resolve h (limit_body x h r) = Inr service"
    and "Method r = ''GET'' \<or> Router (h_opts h) = None \<or> Method r = ''POST''"
  shows
    "(fst (snd (ServeHTTP x h r p)) = ServeWebsocket (limit_body x h r) service) =
       ((\<exists>v \<in> set (Split (Get (Header r) ''Connection'') CHR '','').
            ToLower x (TrimSpace x v) = ''upgrade'')
        \<and> (\<exists>v \<in> set (Split (Get (Header r) ''Upgrade'') CHR '','').
            ToLower x (TrimSpace x v) = ''websocket'')
        \<and> (\<exists>sv \<in> set (Services service). \<exists>ep \<in> set (Endpoints sv).
              Name ep = EndpointName (Endpoint service)
              \<and> Metadata ep ''stream'' = Some ''true''))
     \<and> ((\<forall>sv \<in> set (Services service). \<forall>ep \<in> set (Endpoints sv).
              Name ep = EndpointName (Endpoint service)
              \<longrightarrow> Metadata ep ''stream'' \<noteq> Some ''true'')
         \<longrightarrow> ServeHTTP x h r p =
               unary x (limit_body x h r) service
                 (stripCharset (Get (Header r) ''Content-Type'')) p)"
proof -
  note d = ServeHTTP_dispatch [OF assms, of p]
  have gate: "isStream x r service =
       ((\<exists>v \<in> set (Split (Get (Header r) ''Connection'') CHR '','').
            ToLower x (TrimSpace x v) = ''upgrade'')
        \<and> (\<exists>v \<in> set (Split (Get (Header r) ''Upgrade'') CHR '','').
            ToLower x (TrimSpace x v) = ''websocket'')
        \<and> (\<exists>sv \<in> set (Services service). \<exists>ep \<in> set (Endpoints sv).
              Name ep = EndpointName (Endpoint service)
              \<and> Metadata ep ''stream'' = Some ''true''))"
    by (auto simp: isStream_def isWebSocket_iff stream_service_iff)
  have first: "(fst (snd (ServeHTTP x h r p)) = ServeWebsocket (limit_body x h r) service)
                 = isStream x r service"
    using d unary_not_bridge [of x "limit_body x h r" service _ p "limit_body x h r" service]
    by (cases "isStream x r service") auto
  have second: "(\<forall>sv \<in> set (Services service). \<forall>ep \<in> set (Endpoints sv).
              Name ep = EndpointName (Endpoint service)
              \<longrightarrow> Metadata ep ''stream'' \<noteq> Some ''true'')
         \<Longrightarrow> \<not> isStream x r service"
    unfolding gate by blast
  from first gate second d show ?thesis by auto
qed

theorem stream_gate_witness:
  "resolve (NewHandler routed_options)
      (limit_body demo_externals (NewHandler routed_options)
         (upgrade_request ''GET'' ''application/json''))
     = Inr demo_service
   \<and> fst (snd (ServeHTTP demo_externals (NewHandler routed_options)
                 (upgrade_request ''GET'' ''application/json'') pool0))
     = ServeWebsocket
         (limit_body demo_externals (NewHandler routed_options)
            (upgrade_request ''GET'' ''application/json''))
         demo_service
   \<and> Metadata (hd (Endpoints (hd (Services demo_service)))) ''stream'' = Some ''true''"
  using stream_gate [of "NewHandler routed_options" demo_externals
      "upgrade_request ''GET'' ''application/json''" demo_service pool0]
  by (simp add: demo_defs http_defs gate_defs)

theorem stream_gate_counterexample:
  "isWebSocket demo_externals (upgrade_request ''PUT'' ''application/json'')
   \<and> stream_service (EndpointName (Endpoint demo_service)) (Services demo_service)
   \<and> resolve (NewHandler routed_options)
        (limit_body demo_externals (NewHandler routed_options)
           (upgrade_request ''PUT'' ''application/json''))
       = Inr demo_service
   \<and> ServeHTTP demo_externals (NewHandler routed_options)
        (upgrade_request ''PUT'' ''application/json'') pool0
       = ([], WriteError (MethodNotAllowed ''go.micro.api'' ''method not allowed''), pool0)"
  by (simp add: demo_defs http_defs gate_defs)

section \<open>Payload extraction\<close>

lemma logError_fields:
  "stream_call (logError d e s) = stream_call s" "op (logError d e s) = op s"
  "sends (logError d e s) = sends s" "up (logError d e s) = up s"
  "stream_closes (logError d e s) = stream_closes s" "down (logError d e s) = down s"
  by (simp_all add: logError_def)

lemma conn_Close_fields:
  "stream_call (conn_Close d s) = stream_call s" "op (conn_Close d s) = op s"
  "sends (conn_Close d s) = sends s" "up (conn_Close d s) = up s"
  "stream_closes (conn_Close d s) = stream_closes s" "down (conn_Close d s) = down s"
  by (simp_all add: conn_Close_def Let_def logError_fields split: option.splits)

lemma serveWebsocket_payload_error:
  assumes "requestPayload x r p = (Inl e, p')"
  shows "stream_call (fst (serveWebsocket x d r service p)) = None
         \<and> sends (fst (serveWebsocket x d r service p)) = []
         \<and> up (fst (serveWebsocket x d r service p)) = UpIdle"
  using assms
  by (simp add: serveWebsocket_def Let_def new_session_def logError_def split: prod.splits)

lemma other_methods:
  assumes "Method r \<noteq> ''GET''" and "Method r \<noteq> ''POST''" and "Method r \<noteq> ''PATCH''"
    and "\<not> Contains (Get (Header r) ''Content-Type'') ''application/json-rpc''"
    and "\<not> Contains (Get (Header r) ''Content-Type'') ''application/proto-rpc''"
    and "\<not> Contains (Get (Header r) ''Content-Type'') ''application/octet-stream''"
    and "\<not> Contains (Get (Header r) ''Content-Type'') ''application/www-x-form-urlencoded''"
  shows "requestPayload x r p = (Inr [], p)"
  using assms by (simp add: requestPayload_def Let_def)

text \<open>
  Claim C8, as the code has it. Take a request whose content type matches none of the
  envelope and form encodings, as it arrives (no ceiling on its body yet), and let
  \<open>ServeHTTP\<close> put the configured ceiling on the body. If the method is \<open>POST\<close> or
  \<open>PATCH\<close> and the body is longer than the ceiling, \<open>requestPayload\<close> fails with the
  reader's too-large error and returns no payload, the standard call path issues no
  call, and \<open>serveWebsocket\<close> opens no stream and sends nothing; if the body is within
  the ceiling, the payload is the whole body. On both paths one buffer is taken from
  the pool and one is put back. If the method is none of \<open>GET\<close>, \<open>POST\<close> and
  \<open>PATCH\<close>, the body is not read, the pool is not touched and the payload is empty,
  whatever the length of the body. The counterexample is such a request: a \<open>PUT\<close>,
  which a handler without a router accepts, with a body over the ceiling; extraction
  does not fail and the call is made.
\<close>

theorem body_ceiling:
  assumes "\<not> Contains (Get (Header r) ''Content-Type'') ''application/json-rpc''"
    and "\<not> Contains (Get (Header r) ''Content-Type'') ''application/proto-rpc''"
    and "\<not> Contains (Get (Header r) ''Content-Type'') ''application/octet-stream''"
    and "\<not> Contains (Get (Header r) ''Content-Type'') ''application/www-x-form-urlencoded''"
    and "max_bytes (Body r) = None"
  shows
    "(Method r = ''POST'' \<or> Method r = ''PATCH'' \<longrightarrow>
       (if body_size x h < int (length (content (Body r)))
        then requestPayload x (limit_body x h r) p
               = (Inl BodyTooLarge, p\<lparr>taken := taken p + 1, returned := returned p + 1\<rparr>)
             \<and> unary x (limit_body x h r) service ct p
               = ([], WriteError BodyTooLarge,
                  p\<lparr>taken := taken p + 1, returned := returned p + 1\<rparr>)
             \<and> stream_call (fst (serveWebsocket x d (limit_body x h r) service p)) = None
             \<and> sends (fst (serveWebsocket x d (limit_body x h r) service p)) = []
        else requestPayload x (limit_body x h r) p
               = (Inr (content (Body r)),
                  p\<lparr>taken := taken p + 1, returned := returned p + 1\<rparr>)))
     \<and> (Method r \<noteq> ''GET'' \<and> Method r \<noteq> ''POST'' \<and> Method r \<noteq> ''PATCH'' \<longrightarrow>
          requestPayload x (limit_body x h r) p = (Inr [], p))"
proof (intro conjI impI)
  assume m: "Method r = ''POST'' \<or> Method r = ''PATCH''"
  have rp: "requestPayload x (limit_body x h r) p =
          (ReadFrom (Body (limit_body x h r)),
           p\<lparr>taken := taken p + 1, returned := returned p + 1\<rparr>)"
    using m assms(1-4) by (intro raw_body) (simp_all add: limit_body_simps)
  show "if body_size x h < int (length (content (Body r)))
        then requestPayload x (limit_body x h r) p
               = (Inl BodyTooLarge, p\<lparr>taken := taken p + 1, returned := returned p + 1\<rparr>)
             \<and> unary x (limit_body x h r) service ct p
               = ([], WriteError BodyTooLarge,
                  p\<lparr>taken := taken p + 1, returned := returned p + 1\<rparr>)
             \<and> stream_call (fst (serveWebsocket x d (limit_body x h r) service p)) = None
             \<and> sends (fst (serveWebsocket x d (limit_body x h r) service p)) = []
        else requestPayload x (limit_body x h r) p
               = (Inr (content (Body r)),
                  p\<lparr>taken := taken p + 1, returned := returned p + 1\<rparr>)"
  proof (cases "body_size x h < int (length (content (Body r)))")
    case True
    with rp assms(5) have e: "requestPayload x (limit_body x h r) p =
        (Inl BodyTooLarge, p\<lparr>taken := taken p + 1, returned := returned p + 1\<rparr>)"
      by (simp add: ReadFrom_limit_body)
    from e have "unary x (limit_body x h r) service ct p
            = ([], WriteError BodyTooLarge,
               p\<lparr>taken := taken p + 1, returned := returned p + 1\<rparr>)"
      by (simp add: unary_def)
    with e serveWebsocket_payload_error [OF e, of d service] True show ?thesis
      by simp
  next
    case False
    with rp assms(5) show ?thesis
      by (simp add: ReadFrom_limit_body)
  qed
next
  assume "Method r \<noteq> ''GET'' \<and> Method r \<noteq> ''POST'' \<and> Method r \<noteq> ''PATCH''"
  with assms(1-4) show "requestPayload x (limit_body x h r) p = (Inr [], p)"
    by (intro other_methods) (simp_all add: limit_body_simps)
qed

theorem body_ceiling_witness:
  "requestPayload demo_externals
       (limit_body demo_externals (WithService demo_service direct_options)
          (plain_request ''POST'' ''application/json'' ''123456789'')) pool0
     = (Inl BodyTooLarge, \<lparr>taken = 1, returned = 1\<rparr>)
   \<and> fst (unary demo_externals
       (limit_body demo_externals (WithService demo_service direct_options)
          (plain_request ''POST'' ''application/json'' ''123456789''))
        demo_service ''application/json'' pool0) = []
   \<and> requestPayload demo_externals
       (limit_body demo_externals (WithService demo_service direct_options)
          (plain_request ''PATCH'' ''application/json'' ''12345678'')) pool0
     = (Inr ''12345678'', \<lparr>taken = 1, returned = 1\<rparr>)
   \<and> requestPayload demo_externals
       (limit_body demo_externals (WithService demo_service direct_options)
          (plain_request ''DELETE'' ''application/json'' ''123456789'')) pool0
     = (Inr [], pool0)"
  using
    body_ceiling [of "plain_request ''POST'' ''application/json'' ''123456789''"
      demo_externals "WithService demo_service direct_options" pool0 demo_service
      "''application/json''" good_dial]
    body_ceiling [of "plain_request ''PATCH'' ''application/json'' ''12345678''"
      demo_externals "WithService demo_service direct_options" pool0 demo_service
      "''application/json''" good_dial]
    body_ceiling [of "plain_request ''DELETE'' ''application/json'' ''123456789''"
      demo_externals "WithService demo_service direct_options" pool0 demo_service
      "''application/json''" good_dial]
  by (simp add: demo_defs http_defs gate_defs)

theorem body_ceiling_counterexample:
  "body_size demo_externals (WithService demo_service direct_options)
     < int (length (content (Body (plain_request ''PUT'' ''application/json'' ''123456789''))))
   \<and> requestPayload demo_externals
       (limit_body demo_externals (WithService demo_service direct_options)
          (plain_request ''PUT'' ''application/json'' ''123456789'')) pool0
     = (Inr [], pool0)
   \<and> fst (snd (ServeHTTP demo_externals (WithService demo_service direct_options)
                 (plain_request ''PUT'' ''application/json'' ''123456789'') pool0))
     = WriteResponse ''ok''"
  by (simp add: demo_defs http_defs gate_defs)

section \<open>Content types on the two paths\<close>

lemma stripCharset_takeWhile: "stripCharset v = takeWhile (\<lambda>c. c \<noteq> CHR '';'') v"
proof -
  have "(case IndexRune v c of None \<Rightarrow> v | Some idx \<Rightarrow> take idx v)
          = takeWhile (\<lambda>a. a \<noteq> c) v" for c
    by (induction v) (auto split: option.splits)
  then show ?thesis by (simp add: stripCharset_def)
qed

lemma unary_request_fields:
  "call_content_type (unary_request sv c br) =
     (if hasCodec c protoCodecs \<or> hasCodec c jsonCodecs then c else ''application/json'')"
  "call_request (unary_request sv c br) =
     Some (if hasCodec c protoCodecs then ProtoMessage br else RawMessage br)"
  by (cases br; simp add: unary_request_def)+

lemma unary_calls:
  assumes "call \<in> set (fst (unary x r sv c p))"
  shows "\<exists>br p'. requestPayload x r p = (Inr br, p') \<and> call = unary_request sv c br"
  using assms
  by (auto simp: unary_def Let_def split: prod.splits sum.splits)

lemma ServeHTTP_calls:
  assumes "call \<in> set (fst (ServeHTTP x h r p))"
  shows "call \<in> set (fst (unary x (limit_body x h r) (projr (resolve h (limit_body x h r)))
                        (stripCharset (Get (Header r) ''Content-Type'')) p))"
  using assms
  by (auto simp: ServeHTTP_def Let_def limit_body_simps split: sum.splits if_splits)

lemma serveWebsocket_stream_call:
  assumes "stream_call (fst (serveWebsocket x d r service p)) = Some (call, opts)"
  shows "\<exists>payload p'. requestPayload x r p = (Inr payload, p')
         \<and> call_content_type call =
           (if stripCharset (Get (Header r) ''Content-Type'') = [] then ''application/json''
            else stripCharset (Get (Header r) ''Content-Type''))
         \<and> call_request call =
           Some (if stripCharset (Get (Header r) ''Content-Type'') = ''application/json''
                 then RawMessage payload else Frame payload)"
proof (cases "requestPayload x r p")
  case (Pair res p')
  show ?thesis
  proof (cases res)
    case (Inl e)
    with Pair assms show ?thesis
      by (simp add: serveWebsocket_def Let_def new_session_def logError_fields
            split: prod.splits)
  next
    case (Inr payload)
    with Pair assms show ?thesis
      by (auto simp: serveWebsocket_def Let_def new_session_def stream_wrapper_def
            stream_request_def logError_fields conn_Close_fields
          split: prod.splits option.splits if_splits)
  qed
qed

lemma envelope_and_form:
  "(Contains (Get (Header r) ''Content-Type'') ''application/json-rpc'' \<longrightarrow>
      requestPayload x r p = (external (jsonrpc_read x (Body r)), p))
   \<and> (\<not> Contains (Get (Header r) ''Content-Type'') ''application/json-rpc''
      \<and> (Contains (Get (Header r) ''Content-Type'') ''application/proto-rpc''
         \<or> Contains (Get (Header r) ''Content-Type'') ''application/octet-stream'') \<longrightarrow>
      requestPayload x r p = (external (protorpc_read x (Body r)), p))
   \<and> (\<not> Contains (Get (Header r) ''Content-Type'') ''application/json-rpc''
      \<and> \<not> Contains (Get (Header r) ''Content-Type'') ''application/proto-rpc''
      \<and> \<not> Contains (Get (Header r) ''Content-Type'') ''application/octet-stream''
      \<and> Contains (Get (Header r) ''Content-Type'') ''application/www-x-form-urlencoded'' \<longrightarrow>
      requestPayload x r p =
        (external (json_Marshal x (map (\<lambda>(k, v). (k, Join v '','')) (Form x r))), p))"
  by (simp add: requestPayload_def Let_def)

text \<open>
  Claim C5, as the code has it. Stripping keeps exactly what stands before the first
  \<open>;\<close> of the \<open>Content-Type\<close> value, and the codec and the content type of the backend
  request are chosen from the stripped value alone. On the standard call path every
  call that \<open>ServeHTTP\<close> issues carries the extracted payload, as a proto message with
  the stripped value as content type when that value is in the proto table, and as a
  raw JSON message otherwise, with the stripped value as content type when it is in
  the JSON table and \<open>application/json\<close> when it is in neither. On the streaming path
  there is no table: the stream request carries the extracted payload as a raw JSON
  message only when the stripped value is exactly \<open>application/json\<close> and as a frame
  otherwise, and its content type is the stripped value, \<open>application/json\<close> standing
  in only for the empty one. The payload extractor does not strip: it looks for the
  names of the envelope and form encodings anywhere in the whole header value and
  decodes accordingly. The counterexamples are a value whose parameter names an
  envelope encoding, which is extracted as an envelope although it strips to
  \<open>application/json\<close>, and \<open>text/plain\<close> on the streaming path, which is in neither
  table and is passed on as \<open>text/plain\<close> in a binary frame.
\<close>

theorem content_type_classification:
  "stripCharset v = takeWhile (\<lambda>c. c \<noteq> CHR '';'') v
   \<and> (\<forall>call \<in> set (fst (ServeHTTP x h r p)).
        \<exists>br p'. requestPayload x (limit_body x h r) p = (Inr br, p')
          \<and> call_content_type call =
            (if hasCodec (stripCharset (Get (Header r) ''Content-Type'')) protoCodecs
                \<or> hasCodec (stripCharset (Get (Header r) ''Content-Type'')) jsonCodecs
             then stripCharset (Get (Header r) ''Content-Type'') else ''application/json'')
          \<and> call_request call =
            Some (if hasCodec (stripCharset (Get (Header r) ''Content-Type'')) protoCodecs
                  then ProtoMessage br else RawMessage br))
   \<and> (\<forall>call opts.
        stream_call (fst (serveWebsocket x d r service p)) = Some (call, opts) \<longrightarrow>
        (\<exists>payload p'. requestPayload x r p = (Inr payload, p')
          \<and> call_content_type call =
            (if stripCharset (Get (Header r) ''Content-Type'') = [] then ''application/json''
             else stripCharset (Get (Header r) ''Content-Type''))
          \<and> call_request call =
            Some (if stripCharset (Get (Header r) ''Content-Type'') = ''application/json''
                  then RawMessage payload else Frame payload)))
   \<and> (Contains (Get (Header r) ''Content-Type'') ''application/json-rpc'' \<longrightarrow>
        requestPayload x r p = (external (jsonrpc_read x (Body r)), p))
   \<and> (\<not> Contains (Get (Header r) ''Content-Type'') ''application/json-rpc''
      \<and> (Contains (Get (Header r) ''Content-Type'') ''application/proto-rpc''
         \<or> Contains (Get (Header r) ''Content-Type'') ''application/octet-stream'') \<longrightarrow>
        requestPayload x r p = (external (protorpc_read x (Body r)), p))
   \<and> (\<not> Contains (Get (Header r) ''Content-Type'') ''application/json-rpc''
      \<and> \<not> Contains (Get (Header r) ''Content-Type'') ''application/proto-rpc''
      \<and> \<not> Contains (Get (Header r) ''Content-Type'') ''application/octet-stream''
      \<and> Contains (Get (Header r) ''Content-Type'') ''application/www-x-form-urlencoded'' \<longrightarrow>
        requestPayload x r p =
          (external (json_Marshal x (map (\<lambda>(k, v). (k, Join v '','')) (Form x r))), p))"
proof -
  have strip: "stripCharset v = takeWhile (\<lambda>c. c \<noteq> CHR '';'') v"
    by (rule stripCharset_takeWhile)
  have unary_path: "\<forall>call \<in> set (fst (ServeHTTP x h r p)).
        \<exists>br p'. requestPayload x (limit_body x h r) p = (Inr br, p')
          \<and> call_content_type call =
            (if hasCodec (stripCharset (Get (Header r) ''Content-Type'')) protoCodecs
                \<or> hasCodec (stripCharset (Get (Header r) ''Content-Type'')) jsonCodecs
             then stripCharset (Get (Header r) ''Content-Type'') else ''application/json'')
          \<and> call_request call =
            Some (if hasCodec (stripCharset (Get (Header r) ''Content-Type'')) protoCodecs
                  then ProtoMessage br else RawMessage br)"
  proof
    fix call assume "call \<in> set (fst (ServeHTTP x h r p))"
    from unary_calls [OF ServeHTTP_calls [OF this]]
    obtain br p' where "requestPayload x (limit_body x h r) p = (Inr br, p')"
      and "call = unary_request (projr (resolve h (limit_body x h r)))
                    (stripCharset (Get (Header r) ''Content-Type'')) br"
      by blast
    then show "\<exists>br p'. requestPayload x (limit_body x h r) p = (Inr br, p')
          \<and> call_content_type call =
            (if hasCodec (stripCharset (Get (Header r) ''Content-Type'')) protoCodecs
                \<or> hasCodec (stripCharset (Get (Header r) ''Content-Type'')) jsonCodecs
             then stripCharset (Get (Header r) ''Content-Type'') else ''application/json'')
          \<and> call_request call =
            Some (if hasCodec (stripCharset (Get (Header r) ''Content-Type'')) protoCodecs
                  then ProtoMessage br else RawMessage br)"
      by (simp only: unary_request_fields) blast
  qed
  have stream_path: "\<forall>call opts.
        stream_call (fst (serveWebsocket x d r service p)) = Some (call, opts) \<longrightarrow>
        (\<exists>payload p'. requestPayload x r p = (Inr payload, p')
          \<and> call_content_type call =
            (if stripCharset (Get (Header r) ''Content-Type'') = [] then ''application/json''
             else stripCharset (Get (Header r) ''Content-Type''))
          \<and> call_request call =
            Some (if stripCharset (Get (Header r) ''Content-Type'') = ''application/json''
                  then RawMessage payload else Frame payload))"
    using serveWebsocket_stream_call [of x d r service p] by blast
  from strip unary_path stream_path envelope_and_form [of r x p] show ?thesis
    by (intro conjI) blast+
qed

theorem content_type_classification_witness:
  "stripCharset ''application/json; charset=UTF-8'' = ''application/json''
   \<and> map call_content_type
       (fst (ServeHTTP demo_externals (WithService demo_service direct_options)
          (plain_request ''POST'' ''application/json; charset=UTF-8'' ''{}'') pool0))
     = [''application/json'']
   \<and> map call_request
       (fst (ServeHTTP demo_externals (WithService demo_service direct_options)
          (plain_request ''POST'' ''application/json; charset=UTF-8'' ''{}'') pool0))
     = [Some (RawMessage ''{}'')]
   \<and> map_option (call_content_type \<circ> fst)
       (stream_call (fst (serveWebsocket demo_externals good_dial
          (plain_request ''POST'' ''application/json; charset=UTF-8'' ''{}'')
          demo_service pool0)))
     = Some ''application/json''
   \<and> Contains ''application/json-rpc; charset=UTF-8'' ''application/json-rpc''
   \<and> requestPayload demo_externals
        (plain_request ''POST'' ''application/json-rpc; charset=UTF-8'' ''{}'') pool0
       = (Inl (External ''no envelope''), pool0)"
proof -
  have strip: "stripCharset ''application/json; charset=UTF-8''
                 = takeWhile (\<lambda>c. c \<noteq> CHR '';'') ''application/json; charset=UTF-8''"
    using content_type_classification [of "''application/json; charset=UTF-8''" demo_externals
      "WithService demo_service direct_options"
      "plain_request ''POST'' ''application/json; charset=UTF-8'' ''{}''" pool0 good_dial
      demo_service]
    by (rule conjunct1)
  have unary_path: "map call_content_type
       (fst (ServeHTTP demo_externals (WithService demo_service direct_options)
          (plain_request ''POST'' ''application/json; charset=UTF-8'' ''{}'') pool0))
     = [''application/json'']
   \<and> map call_request
       (fst (ServeHTTP demo_externals (WithService demo_service direct_options)
          (plain_request ''POST'' ''application/json; charset=UTF-8'' ''{}'') pool0))
     = [Some (RawMessage ''{}'')]"
    by (simp add: demo_defs http_defs gate_defs)
  have stream_path: "map_option (call_content_type \<circ> fst)
       (stream_call (fst (serveWebsocket demo_externals good_dial
          (plain_request ''POST'' ''application/json; charset=UTF-8'' ''{}'')
          demo_service pool0)))
     = Some ''application/json''"
    by (simp add: demo_defs http_defs gate_defs bridge_defs)
  have envelope: "Contains ''application/json-rpc; charset=UTF-8'' ''application/json-rpc''
   \<and> requestPayload demo_externals
        (plain_request ''POST'' ''application/json-rpc; charset=UTF-8'' ''{}'') pool0
       = (Inl (External ''no envelope''), pool0)"
    by (simp add: demo_defs http_defs gate_defs)
  from strip unary_path stream_path envelope show ?thesis
    by simp
qed

theorem content_type_classification_counterexample:
  "stripCharset ''application/json; x=application/octet-stream''
     = stripCharset ''application/json''
   \<and> ServeHTTP demo_externals (WithService demo_service direct_options)
        (plain_request ''POST'' ''application/json; x=application/octet-stream'' ''{}'') pool0
       = ([], WriteError (External ''no envelope''), pool0)
   \<and> fst (snd (ServeHTTP demo_externals (WithService demo_service direct_options)
        (plain_request ''POST'' ''application/json'' ''{}'') pool0))
       = WriteResponse ''ok''
   \<and> \<not> hasCodec (stripCharset ''text/plain'') jsonCodecs
   \<and> \<not> hasCodec (stripCharset ''text/plain'') protoCodecs
   \<and> map_option (call_content_type \<circ> fst)
       (stream_call (fst (serveWebsocket demo_externals good_dial
          (upgrade_request ''GET'' ''text/plain'') demo_service pool0)))
     = Some ''text/plain''
   \<and> map_option (call_request \<circ> fst)
       (stream_call (fst (serveWebsocket demo_externals good_dial
          (upgrade_request ''GET'' ''text/plain'') demo_service pool0)))
     = Some (Some (Frame []))
   \<and> op (fst (serveWebsocket demo_externals good_dial
          (upgrade_request ''GET'' ''text/plain'') demo_service pool0)) = OpBinary"
  by (simp add: demo_defs http_defs gate_defs bridge_defs)

section \<open>The framing op\<close>

lemma protocol_hints_op:
  "snd (protocol_hints proto (hdr, opc)) = (if proto = [] then opc else OpBinary)"
  by (induction proto arbitrary: hdr opc) auto

lemma negotiate_op:
  "snd (negotiate r ct) =
     (case Header r ''Sec-WebSocket-Protocol'' of
        Some (hint # hints) \<Rightarrow> OpBinary
      | _ \<Rightarrow> if ct = ''application/json'' then OpText else OpBinary)"
  by (simp add: negotiate_def Let_def protocol_hints_op split: option.splits list.splits)

lemma serveWebsocket_op:
  "op (fst (serveWebsocket x d r service p)) =
     snd (negotiate r (stripCharset (Get (Header r) ''Content-Type'')))"
  by (simp add: serveWebsocket_def Let_def new_session_def logError_fields conn_Close_fields
      split: prod.splits sum.splits option.splits)

text \<open>
  The op of a session, for any header map: binary as soon as the map holds a value
  under the key \<open>Sec-WebSocket-Protocol\<close> exactly as \<open>serveWebsocket\<close> writes it, and
  otherwise text for the stripped content type \<open>application/json\<close> and binary for any
  other.
\<close>

lemma serveWebsocket_framing_op:
  "op (fst (serveWebsocket x d r service p)) =
     (case Header r ''Sec-WebSocket-Protocol'' of
        Some (hint # hints) \<Rightarrow> OpBinary
      | _ \<Rightarrow> if stripCharset (Get (Header r) ''Content-Type'') = ''application/json''
             then OpText else OpBinary)"
  by (simp only: serveWebsocket_op negotiate_op)

lemma canonical_keys:
  "CanonicalMIMEHeaderKey ''Sec-WebSocket-Protocol'' = ''Sec-Websocket-Protocol''"
  "CanonicalMIMEHeaderKey ''Connection'' = ''Connection''"
  "CanonicalMIMEHeaderKey ''Upgrade'' = ''Upgrade''"
  "CanonicalMIMEHeaderKey ''Content-Type'' = ''Content-Type''"
  by code_simp+

lemma binary_hint_header:
  "Header binary_hint_request =
     [''Connection'' \<mapsto> [''Upgrade''], ''Upgrade'' \<mapsto> [''websocket''],
      ''Content-Type'' \<mapsto> [''application/json''],
      ''Sec-Websocket-Protocol'' \<mapsto> [''binary'']]"
  by (simp add: binary_hint_request_def wire_request_def canonical_keys)

lemma binary_hint_fields:
  "Get (Header binary_hint_request) ''Content-Type'' = ''application/json''"
  "Get (Header binary_hint_request) ''Connection'' = ''Upgrade''"
  "Get (Header binary_hint_request) ''Upgrade'' = ''websocket''"
  "Header binary_hint_request ''Sec-WebSocket-Protocol'' = None"
  "Header binary_hint_request ''Sec-Websocket-Protocol'' = Some [''binary'']"
  by (simp_all add: binary_hint_header Get_def)

text \<open>
  Claim C3, evaluated where it fails. An upgrade request with the header lines
  \<open>Content-Type: application/json\<close> and \<open>Sec-WebSocket-Protocol: binary\<close> reaches the
  handler with the hint stored under the canonical key \<open>Sec-Websocket-Protocol\<close>.
  \<open>serveWebsocket\<close> indexes the map with \<open>Sec-WebSocket-Protocol\<close>, finds nothing,
  and leaves the op at text, although a hint asks for binary framing; the upgrade
  response is given no protocol header either.
\<close>

theorem binary_hint_lost:
  "CanonicalMIMEHeaderKey ''Sec-WebSocket-Protocol'' = ''Sec-Websocket-Protocol''
   \<and> Header binary_hint_request ''Sec-Websocket-Protocol'' = Some [''binary'']
   \<and> Header binary_hint_request ''Sec-WebSocket-Protocol'' = None
   \<and> isWebSocket demo_externals binary_hint_request
   \<and> op (fst (serveWebsocket demo_externals good_dial binary_hint_request demo_service pool0))
       = OpText
   \<and> upgrade_header
        (fst (serveWebsocket demo_externals good_dial binary_hint_request demo_service pool0))
        ''Sec-WebSocket-Protocol'' = None
   \<and> OpText \<noteq> OpBinary"
proof -
  have ws: "isWebSocket demo_externals binary_hint_request"
    by (simp add: isWebSocket_def contains_header_def binary_hint_fields
          demo_externals_def asciiToLower_def asciiTrimSpace_def asciiSpace_def lowerChar_def)
  have opc: "op (fst (serveWebsocket demo_externals good_dial binary_hint_request
                  demo_service pool0)) = OpText"
    by (simp add: serveWebsocket_framing_op binary_hint_fields stripCharset_def)
  have hdr: "fst (negotiate binary_hint_request ''application/json'') = Map.empty"
    by (simp add: negotiate_def Let_def binary_hint_fields)
  have "upgrade_header
        (fst (serveWebsocket demo_externals good_dial binary_hint_request demo_service pool0))
      = fst (negotiate binary_hint_request
               (stripCharset (Get (Header binary_hint_request) ''Content-Type'')))"
    by (simp add: serveWebsocket_def Let_def new_session_def logError_def conn_Close_def
          split: prod.splits sum.splits option.splits)
  with hdr have up_hdr: "upgrade_header
        (fst (serveWebsocket demo_externals good_dial binary_hint_request demo_service pool0))
        ''Sec-WebSocket-Protocol'' = None"
    by (simp add: binary_hint_fields stripCharset_def)
  from ws opc up_hdr show ?thesis
    by (simp add: canonical_keys binary_hint_fields OpText_def OpBinary_def)
qed

section \<open>The first frame\<close>

text \<open>
  Claim C4, evaluated where it fails. A \<open>GET\<close> upgrade request with no query string
  has the empty payload; \<open>serveWebsocket\<close> still wraps it, finds \<open>request\<close> non-nil and
  sends it, so the stream has received one (empty) frame when the two relays start.
\<close>

theorem first_frame_without_payload:
  "requestPayload demo_externals
       (limit_body demo_externals (WithService demo_service direct_options)
          (upgrade_request ''GET'' ''application/json'')) pool0
     = (Inr [], pool0)
   \<and> sends demo_session = [RawMessage []]
   \<and> up demo_session = UpSelect
   \<and> down demo_session = DownSelect"
  by (simp add: demo_session_def demo_defs http_defs gate_defs bridge_defs)

section \<open>The relays\<close>

lemma demo_session_eq:
  "demo_session =
     \<lparr>up = UpSelect, down = DownSelect, request_done = False, stream_done = False,
      op = OpText, upgrade_header = Map.empty,
      stream_call =
        Some (\<lparr>call_service = ''chat'', call_endpoint = ''Chat.Stream'',
               call_request = Some (RawMessage []), call_content_type = ''application/json'',
               call_streaming = True\<rparr>,
              [WithRouter (Services demo_service)]),
      sends = [RawMessage []], stream_closes = 0, writes = [], flushes = 0, conn_closes = 0,
      errors = []\<rparr>"
  by (simp add: demo_session_def demo_defs http_defs gate_defs bridge_defs)

lemma going_away_final:
  "run good_dial demo_session going_away_run =
      Some (demo_session\<lparr>up := UpReturned, stream_closes := 1,
              sends := [RawMessage [], Frame ''hello'', Frame ''bye''],
              writes := [(OpText, ''world'')], flushes := 1\<rparr>)"
  by (simp add: going_away_run_def demo_session_eq good_dial_def relay_defs)

lemma going_away_before:
  "run good_dial demo_session (butlast going_away_run) =
      Some (demo_session\<lparr>up := UpRead,
              sends := [RawMessage [], Frame ''hello'', Frame ''bye''],
              writes := [(OpText, ''world'')], flushes := 1\<rparr>)"
  by (simp add: going_away_run_def demo_session_eq good_dial_def relay_defs)

lemma going_away_frames: "data_frames going_away_run = [''hello'', ''bye'']"
  by (simp add: going_away_run_def OpText_def OpBinary_def)

subsection \<open>What each step leaves alone\<close>

lemma down_return_fields:
  "sends (down_return d s) = sends s" "up (down_return d s) = up s"
  "stream_closes (down_return d s) = stream_closes s"
  by (simp_all add: down_return_def conn_Close_fields)

lemma down_read_fields:
  "sends (down_read d s buf err) = sends s" "up (down_read d s buf err) = up s"
  "stream_closes (down_read d s buf err) = stream_closes s"
  by (simp_all add: down_read_def down_return_fields logError_fields split: option.splits)



lemma up_read_error_sends: "sends (up_read d s buf opc (Some e)) = sends s"
  by (simp add: up_read_def up_return_def logError_fields split: error.splits)


lemma up_read_closes:
  "stream_closes (up_read d s buf opc err) =
     stream_closes s + (if up (up_read d s buf opc err) = UpReturned then 1 else 0)"
  by (simp add: up_read_def up_return_def logError_fields split: option.splits error.splits)

subsection \<open>Closing the backend stream\<close>

lemma step_closes_case:
  "case step d s e of
     None \<Rightarrow> True
   | Some s' \<Rightarrow>
       stream_closes s' =
         stream_closes s + (if up s \<noteq> UpReturned \<and> up s' = UpReturned then 1 else 0)"
proof (cases e)
  case (ReadClientData buf opc err)
  then show ?thesis
    using up_read_closes [of d s buf opc err] by simp
next
  case (Sent err)
  then show ?thesis
    by (simp add: up_return_def logError_fields split: option.splits)
next
  case UpRun
  then show ?thesis
    using up_read_closes [of d s "[]" 0 "Some (External ''use of closed network connection'')"]
    by (simp add: up_return_def)
next
  case DownRun
  then show ?thesis
    by (simp add: down_return_fields)
next
  case (RspRead buf err)
  then show ?thesis
    by (simp add: down_read_fields)
next
  case (Written err)
  then show ?thesis
    by (simp add: down_return_fields logError_fields split: option.splits)
next
  case (Flushed err)
  then show ?thesis
    by (simp add: down_return_fields logError_fields split: option.splits)
qed simp_all

lemma step_closes:
  assumes "step d s e = Some s'"
  shows "stream_closes s' =
           stream_closes s + (if up s \<noteq> UpReturned \<and> up s' = UpReturned then 1 else 0)"
  using step_closes_case [where d = d and s = s and e = e] assms by simp

lemma step_stays_returned_case:
  "up s = UpReturned \<Longrightarrow>
   (case step d s e of None \<Rightarrow> True | Some s' \<Rightarrow> up s' = UpReturned)"
  by (cases e)
     (simp_all add: down_return_fields down_read_fields logError_fields split: option.splits)

lemma step_stays_returned:
  assumes "step d s e = Some s'" and "up s = UpReturned"
  shows "up s' = UpReturned"
  using step_stays_returned_case [OF assms(2), where d = d and e = e] assms(1) by simp

lemma run_closes:
  assumes "run d s evs = Some s'"
    and "stream_closes s = (if up s = UpReturned then 1 else 0)"
  shows "stream_closes s' = (if up s' = UpReturned then 1 else 0)"
  using assms
proof (induction evs arbitrary: s)
  case Nil
  then show ?case by simp
next
  case (Cons e evs)
  from Cons.prems(1) obtain s1 where s1: "step d s e = Some s1" and r: "run d s1 evs = Some s'"
    by (auto split: option.splits)
  have "stream_closes s1 = (if up s1 = UpReturned then 1 else 0)"
    using step_closes [OF s1] step_stays_returned [OF s1] Cons.prems(2)
    by (cases "up s = UpReturned") simp_all
  with Cons.IH [OF r] show ?case .
qed

lemma serveWebsocket_start:
  "stream_closes (fst (serveWebsocket x d r service p)) = 0
   \<and> up (fst (serveWebsocket x d r service p)) \<noteq> UpReturned"
  by (simp add: serveWebsocket_def Let_def new_session_def logError_fields conn_Close_fields
      stream_wrapper_def split: prod.splits sum.splits option.splits)

lemma benign_close:
  assumes "up s = UpRead"
    and "code = StatusGoingAway \<or> code = StatusNormalClosure \<or> code = StatusNoStatusRcvd"
  shows "step d s (ReadClientData buf opc (Some (ClosedError code reason))) =
           Some (s\<lparr>up := UpReturned, stream_closes := stream_closes s + 1\<rparr>)"
  using assms by (auto simp: up_read_def up_return_def)

text \<open>
  Claim C1. Take any session that \<open>serveWebsocket\<close> has set up and any run of it.
  \<open>stream.Close\<close> has been called once if the upstream relay has returned and not at
  all otherwise; a step adds a call exactly when it takes the upstream relay from not
  returned to returned, so the one call is the relay's own, made on its way out; and
  when the relay is blocked in its read and the read returns a close with the
  going-away, normal-closure or no-status-received code, the relay returns, closing
  the stream, with the log untouched.
\<close>

theorem stream_closed_once:
  assumes "run d (fst (serveWebsocket x d r service p)) evs = Some s"
  shows "stream_closes s = (if up s = UpReturned then 1 else 0)
     \<and> (\<forall>e s'. step d s e = Some s' \<longrightarrow>
           stream_closes s' =
             stream_closes s + (if up s \<noteq> UpReturned \<and> up s' = UpReturned then 1 else 0))
     \<and> (\<forall>buf opc code reason.
           up s = UpRead \<and>
           (code = StatusGoingAway \<or> code = StatusNormalClosure \<or> code = StatusNoStatusRcvd)
           \<longrightarrow>
           step d s (ReadClientData buf opc (Some (ClosedError code reason))) =
             Some (s\<lparr>up := UpReturned, stream_closes := stream_closes s + 1\<rparr>))"
proof (intro conjI allI impI)
  have "stream_closes (fst (serveWebsocket x d r service p)) =
          (if up (fst (serveWebsocket x d r service p)) = UpReturned then 1 else 0)"
    using serveWebsocket_start [of x d r service p] by simp
  from run_closes [OF assms this]
  show "stream_closes s = (if up s = UpReturned then 1 else 0)" .
next
  fix e s' assume "step d s e = Some s'"
  then show "stream_closes s' =
      stream_closes s + (if up s \<noteq> UpReturned \<and> up s' = UpReturned then 1 else 0)"
    by (rule step_closes)
next
  fix buf opc code reason
  assume "up s = UpRead \<and>
     (code = StatusGoingAway \<or> code = StatusNormalClosure \<or> code = StatusNoStatusRcvd)"
  then show "step d s (ReadClientData buf opc (Some (ClosedError code reason))) =
      Some (s\<lparr>up := UpReturned, stream_closes := stream_closes s + 1\<rparr>)"
    using benign_close [of s code d buf opc reason] by blast
qed

theorem stream_closed_once_witness:
  "map_option up (run good_dial demo_session going_away_run) = Some UpReturned
   \<and> map_option stream_closes (run good_dial demo_session going_away_run) = Some 1
   \<and> map_option errors (run good_dial demo_session going_away_run) = Some []
   \<and> map_option up (run good_dial demo_session (butlast going_away_run)) = Some UpRead
   \<and> map_option stream_closes (run good_dial demo_session (butlast going_away_run)) = Some 0"
proof -
  note t = stream_closed_once [of good_dial demo_externals
      "limit_body demo_externals (WithService demo_service direct_options)
         (upgrade_request ''GET'' ''application/json'')"
      demo_service pool0 going_away_run, folded demo_session_def, OF going_away_final]
  from t have "stream_closes (demo_session\<lparr>up := UpReturned, stream_closes := 1,
              sends := [RawMessage [], Frame ''hello'', Frame ''bye''],
              writes := [(OpText, ''world'')], flushes := 1\<rparr>) = 1"
    by simp
  then show ?thesis
    by (simp add: going_away_final going_away_before) (simp add: demo_session_eq)
qed

subsection \<open>Forwarding frames\<close>

lemma step_sends_case:
  "case step d s e of
     None \<Rightarrow> True
   | Some s' \<Rightarrow> sends s' = sends s @ map Frame (data_frames [e])"
proof (cases e)
  case (ReadClientData buf opc err)
  then show ?thesis
    by (cases err)
       (simp_all add: up_read_def up_return_def logError_fields split: error.splits)
next
  case (Sent err)
  then show ?thesis
    by (simp add: up_return_def logError_fields split: option.splits)
next
  case UpRun
  then show ?thesis
    by (simp add: up_return_def up_read_error_sends)
next
  case DownRun
  then show ?thesis
    by (simp add: down_return_fields)
next
  case (RspRead buf err)
  then show ?thesis
    by (simp add: down_read_fields)
next
  case (Written err)
  then show ?thesis
    by (simp add: down_return_fields logError_fields split: option.splits)
next
  case (Flushed err)
  then show ?thesis
    by (simp add: down_return_fields logError_fields split: option.splits)
qed simp_all

lemma data_frames_Cons: "data_frames (e # es) = data_frames [e] @ data_frames es"
proof (cases e)
  case (ReadClientData buf opc err)
  then show ?thesis by (cases err) simp_all
qed simp_all

lemma run_sends:
  assumes "run d s evs = Some s'"
  shows "sends s' = sends s @ map Frame (data_frames evs)"
  using assms
proof (induction evs arbitrary: s)
  case Nil
  then show ?case by simp
next
  case (Cons e evs)
  from Cons.prems obtain s1 where s1: "step d s e = Some s1" and r: "run d s1 evs = Some s'"
    by (auto split: option.splits)
  from step_sends_case [where d = d and s = s and e = e] s1
  have "sends s1 = sends s @ map Frame (data_frames [e])" by simp
  with Cons.IH [OF r] show ?case
    by (subst data_frames_Cons) simp
qed

lemma control_frame_skipped:
  assumes "up s = UpRead" and "opc \<noteq> OpText" and "opc \<noteq> OpBinary"
  shows "step d s (ReadClientData buf opc None) = Some (s\<lparr>up := UpSelect\<rparr>)"
  using assms by (simp add: up_read_def)

text \<open>
  Claim C9. Over any run of a session, the frames handed to \<open>stream.Send\<close> are those
  sent before the run followed by one frame for each text or binary message that the
  connection delivered during the run, with the same bytes and in the same order.
  A message of any other kind, delivered while the upstream relay is in its read,
  only takes the relay back to the head of its loop: nothing is sent, nothing is
  logged, and the relay does not return.
\<close>

theorem frames_forwarded_in_order:
  assumes "run d s evs = Some s'"
  shows "sends s' = sends s @ map Frame (data_frames evs)
     \<and> (\<forall>buf opc. up s' = UpRead \<and> opc \<noteq> OpText \<and> opc \<noteq> OpBinary \<longrightarrow>
           step d s' (ReadClientData buf opc None) = Some (s'\<lparr>up := UpSelect\<rparr>))"
  using run_sends [OF assms] control_frame_skipped [of s' _ d] by blast

theorem frames_forwarded_in_order_witness:
  "data_frames going_away_run = [''hello'', ''bye'']
   \<and> map_option sends (run good_dial demo_session going_away_run)
       = Some [RawMessage [], Frame ''hello'', Frame ''bye'']
   \<and> sends demo_session = [RawMessage []]"
proof -
  from frames_forwarded_in_order [OF going_away_final]
  have "sends (demo_session\<lparr>up := UpReturned, stream_closes := 1,
              sends := [RawMessage [], Frame ''hello'', Frame ''bye''],
              writes := [(OpText, ''world'')], flushes := 1\<rparr>)
          = sends demo_session @ map Frame (data_frames going_away_run)"
    by blast
  then show ?thesis
    by (simp add: going_away_final going_away_frames)
qed

subsection \<open>Cancellation\<close>
















end
